theory Spec2Isabelle
  imports Main "HOL-Library.Sublist"
begin

section \<open>Package field: columns, bound values and expressions\<close>

text \<open>
  \<^verbatim>\<open>clause.Column\<close> of the query builder: the value a plain field expression
  carries and binds.
\<close>

record Column =
  col_Table :: string
  col_Name :: string
  col_Alias :: string
  col_Raw :: bool

definition zero_Column :: Column where
  "zero_Column = \<lparr>col_Table = [], col_Name = [], col_Alias = [], col_Raw = False\<rparr>"

text \<open>
  The values that travel in a parameter list (\<^verbatim>\<open>[]interface{}\<close>): integers, strings,
  columns and \<^verbatim>\<open>clause.Expr{SQL, Vars}\<close> expressions, which carry a parameter list of
  their own.
\<close>

datatype val = IntV int | StrV string | ColumnV Column | ExprV clause_Expr
  and clause_Expr = Expr (SQL: string) (Vars: "val list")

text \<open>
  \<^verbatim>\<open>type expr struct { col clause.Column; e clause.Expression; buildOpts []BuildOpt }\<close>.
  The expression \<^verbatim>\<open>e\<close> is nil or a \<^verbatim>\<open>clause.Expr\<close>; \<^verbatim>\<open>buildOpts\<close> is read by none of
  the functions below and is left out.
\<close>

record expr =
  col :: Column
  e :: "clause_Expr option"

definition RawExpr :: "'a expr_scheme \<Rightarrow> val" where
  "RawExpr x = (case e x of None \<Rightarrow> ColumnV (col x) | Some ex \<Rightarrow> ExprV ex)"

definition ColumnName :: "'a expr_scheme \<Rightarrow> string" where
  "ColumnName x = col_Name (col x)"

definition setE :: "expr \<Rightarrow> clause_Expr \<Rightarrow> expr" where
  "setE x ex = x\<lparr>e := Some ex\<rparr>"

definition NewExpr :: "clause_Expr \<Rightarrow> expr" where
  "NewExpr expression = \<lparr>col = zero_Column, e = Some expression\<rparr>"

definition Desc :: "expr \<Rightarrow> expr" where
  "Desc x = setE x (Expr ''? DESC'' [RawExpr x])"

definition Asc :: "expr \<Rightarrow> expr" where
  "Asc x = setE x (Expr ''? ASC'' [RawExpr x])"

subsection \<open>Window functions of package field\<close>

text \<open>\<^verbatim>\<open>type WindowFunction struct { expr; funcName string }\<close>\<close>

record field_WindowFunction = expr +
  funcName :: string

definition WindowFuncName :: "field_WindowFunction \<Rightarrow> string" where
  "WindowFuncName w = funcName w"

definition RowNumberFunc :: field_WindowFunction where
  "RowNumberFunc =
     \<lparr>col = zero_Column, e = Some (Expr ''ROW_NUMBER()'' []), funcName = ''ROW_NUMBER()''\<rparr>"

definition RankFunc :: field_WindowFunction where
  "RankFunc = \<lparr>col = zero_Column, e = Some (Expr ''RANK()'' []), funcName = ''RANK()''\<rparr>"

definition WindowSum :: "expr \<Rightarrow> field_WindowFunction" where
  "WindowSum x =
     (let sql = ''SUM(?)''; vars = [RawExpr x]
      in \<lparr>col = col x, e = Some (Expr sql vars), funcName = sql\<rparr>)"

definition Lag :: "expr \<Rightarrow> int \<Rightarrow> val list \<Rightarrow> field_WindowFunction" where
  "Lag x offset defaultValue =
     (let (sql, vars) =
            (if length defaultValue > 0
             then (''LAG(?, ?, ?)'', [RawExpr x, IntV offset, hd defaultValue])
             else (''LAG(?, ?)'', [RawExpr x, IntV offset]))
      in \<lparr>col = col x, e = Some (Expr sql vars), funcName = sql\<rparr>)"

definition Ntile :: "expr \<Rightarrow> int \<Rightarrow> field_WindowFunction" where
  "Ntile x n =
     (let sql = ''NTILE(?)''; vars = [IntV n]
      in \<lparr>col = col x, e = Some (Expr sql vars), funcName = sql\<rparr>)"

section \<open>Package gen: window specifications\<close>

text \<open>
  \<^verbatim>\<open>FrameType\<close> and \<^verbatim>\<open>FrameBoundType\<close> are string types with named constants; a
  bound's \<^verbatim>\<open>Offset\<close> is an \<^verbatim>\<open>interface{}\<close>, nil when absent.
\<close>

definition FrameRows :: string where "FrameRows = ''ROWS''"
definition FrameRange :: string where "FrameRange = ''RANGE''"

definition UnboundedPreceding :: string where "UnboundedPreceding = ''UNBOUNDED PRECEDING''"
definition Preceding :: string where "Preceding = ''PRECEDING''"
definition CurrentRow :: string where "CurrentRow = ''CURRENT ROW''"
definition Following :: string where "Following = ''FOLLOWING''"
definition UnboundedFollowing :: string where "UnboundedFollowing = ''UNBOUNDED FOLLOWING''"

record FrameBound =
  bound_Type :: string
  Offset :: "val option"

record FrameSpec =
  frame_Type :: string
  Start :: FrameBound
  End :: "FrameBound option"

record WindowSpec =
  PartitionBy :: "expr list"
  OrderBy :: "expr list"
  Frame :: "FrameSpec option"

text \<open>The zero value \<^verbatim>\<open>WindowSpec{}\<close>: nil slices and a nil frame pointer.\<close>

definition zero_WindowSpec :: WindowSpec where
  "zero_WindowSpec = \<lparr>PartitionBy = [], OrderBy = [], Frame = None\<rparr>"

text \<open>\<^verbatim>\<open>strings.Join(elems, sep)\<close>\<close>

fun Join :: "string list \<Rightarrow> string \<Rightarrow> string" where
  "Join [] sep = []"
| "Join [x] sep = x"
| "Join (x # y # ys) sep = x @ sep @ Join (y # ys) sep"

subsection \<open>buildFrameClause\<close>

text \<open>
  The slice \<^verbatim>\<open>result[:len(result)-len(string(frame.End.Type))]\<close> is \<open>take\<close>; the
  subtraction cannot go below zero, since \<^verbatim>\<open>result\<close> ends with the end bound's type at
  that point.
\<close>

definition buildFrameClause :: "FrameSpec \<Rightarrow> string" where
  "buildFrameClause frame =
     (let result = bound_Type (Start frame);
          result = (if Offset (Start frame) \<noteq> None then ''? '' @ result else result)
      in case End frame of
           None \<Rightarrow> result
         | Some end_bound \<Rightarrow>
             (let result = result @ '' AND '' @ bound_Type end_bound
              in if Offset end_bound \<noteq> None
                 then take (length result - length (bound_Type end_bound)) result
                        @ ''? '' @ bound_Type end_bound
                 else result))"

subsection \<open>buildWindowExpression\<close>

text \<open>
  The two \<^verbatim>\<open>for i, col := range ...\<close> loops of \<^verbatim>\<open>buildWindowExpression\<close> have the same
  body: a comma before every column but the first, one placeholder, one collected value.
  The state is the pair of \<^verbatim>\<open>overClause\<close> and \<^verbatim>\<open>vars\<close>.
\<close>

fun range_columns :: "nat \<Rightarrow> expr list \<Rightarrow> string \<times> val list \<Rightarrow> string \<times> val list" where
  "range_columns i [] (overClause, vars) = (overClause, vars)"
| "range_columns i (c # cs) (overClause, vars) =
     range_columns (Suc i) cs
       ((if i > 0 then overClause @ '', '' else overClause) @ ''?'', vars @ [RawExpr c])"

definition buildWindowExpression :: "field_WindowFunction \<Rightarrow> WindowSpec \<Rightarrow> expr" where
  "buildWindowExpression windowFunc spec =
     (let overClause = '' OVER ('';
          vars = [];
          (overClause, vars) =
            (if length (PartitionBy spec) > 0
             then range_columns 0 (PartitionBy spec) (overClause @ ''PARTITION BY '', vars)
             else (overClause, vars));
          (overClause, vars) =
            (if length (OrderBy spec) > 0
             then range_columns 0 (OrderBy spec)
                    ((if length (PartitionBy spec) > 0 then overClause @ '' '' else overClause)
                       @ ''ORDER BY '', vars)
             else (overClause, vars));
          overClause =
            (case Frame spec of
               None \<Rightarrow> overClause
             | Some f \<Rightarrow> (overClause @ '' '' @ frame_Type f @ '' '') @ buildFrameClause f);
          overClause = overClause @ '')'';
          sql = WindowFuncName windowFunc @ overClause;
          allVars = [RawExpr windowFunc] @ vars
      in NewExpr (Expr sql allVars))"

section \<open>Package gen: the string-based window functions of with.go\<close>

record FrameClause =
  fc_Type :: string
  fc_Start :: string
  fc_End :: string

record OverClause =
  partitionBy :: "expr list"
  orderBy :: "expr list"
  frame :: "FrameClause option"

record WindowFunction =
  Function :: string
  overClause :: "OverClause option"

definition RowNumber :: WindowFunction where
  "RowNumber = \<lparr>Function = ''ROW_NUMBER()'', overClause = None\<rparr>"

text \<open>
  \<^verbatim>\<open>Over\<close> creates the clause on first use and hands out a pointer to it; the model
  returns the receiver as the call leaves it. The setters work through that pointer.
\<close>

definition Over :: "WindowFunction \<Rightarrow> WindowFunction" where
  "Over w = (if overClause w = None
             then w\<lparr>overClause := Some \<lparr>partitionBy = [], orderBy = [], frame = None\<rparr>\<rparr>
             else w)"

definition Rows :: "OverClause \<Rightarrow> string \<Rightarrow> string \<Rightarrow> OverClause" where
  "Rows oc start end_bound =
     oc\<lparr>frame := Some \<lparr>fc_Type = ''ROWS'', fc_Start = start, fc_End = end_bound\<rparr>\<rparr>"

definition Range :: "OverClause \<Rightarrow> string \<Rightarrow> string \<Rightarrow> OverClause" where
  "Range oc start end_bound =
     oc\<lparr>frame := Some \<lparr>fc_Type = ''RANGE'', fc_Start = start, fc_End = end_bound\<rparr>\<rparr>"

text \<open>
  In \<^verbatim>\<open>buildSQL\<close> the assertion \<^verbatim>\<open>expr.(field.IColumnName)\<close> holds for every
  \<^verbatim>\<open>field.Expr\<close>, since that interface embeds \<^verbatim>\<open>IColumnName\<close>: each column is
  rendered by \<^verbatim>\<open>ColumnName()\<close>.
\<close>

definition buildSQL :: "WindowFunction \<Rightarrow> string" where
  "buildSQL w =
     (let sql = Function w @ '' OVER ('';
          sql =
            (case overClause w of
               None \<Rightarrow> sql
             | Some oc \<Rightarrow>
                 (let parts = [];
                      parts = (if length (partitionBy oc) > 0
                               then parts @ [''PARTITION BY '' @ Join (map ColumnName (partitionBy oc)) '', '']
                               else parts);
                      parts = (if length (orderBy oc) > 0
                               then parts @ [''ORDER BY '' @ Join (map ColumnName (orderBy oc)) '', '']
                               else parts);
                      parts =
                        (case frame oc of
                           None \<Rightarrow> parts
                         | Some fr \<Rightarrow>
                             (let frameSQL = fc_Type fr;
                                  frameSQL =
                                    (if fc_End fr \<noteq> []
                                     then frameSQL @ '' BETWEEN '' @ fc_Start fr @ '' AND '' @ fc_End fr
                                     else frameSQL @ '' '' @ fc_Start fr)
                              in parts @ [frameSQL]))
                  in sql @ Join parts '' ''))
      in sql @ '')'')"

subsection \<open>The window view\<close>

text \<open>
  \<^verbatim>\<open>windowViewDO\<close> holds the embedded \<^verbatim>\<open>*DO\<close> (its database handle), the window
  functions and the window specifications. The handle is kept as the chain of builder
  calls made on it.
\<close>

datatype DB = Conn string | Session DB | Table DB string | Raw DB string "val list"

record windowViewDO =
  db :: DB
  windowFuncs :: "field_WindowFunction list"
  windowSpecs :: "WindowSpec list"

definition DO_With_view :: "DB \<Rightarrow> windowViewDO" where
  "DO_With_view d = \<lparr>db = d, windowFuncs = [], windowSpecs = []\<rparr>"

definition Window :: "'a windowViewDO_scheme \<Rightarrow> field_WindowFunction \<Rightarrow> 'a windowViewDO_scheme" where
  "Window w windowFunc = w\<lparr>windowFuncs := windowFuncs w @ [windowFunc]\<rparr>"

definition Over_view :: "windowViewDO \<Rightarrow> WindowSpec \<Rightarrow> windowViewDO" where
  "Over_view w spec = w\<lparr>windowSpecs := windowSpecs w @ [spec]\<rparr>"

text \<open>
  \<^verbatim>\<open>PartitionBy\<close>, \<^verbatim>\<open>WindowOrderBy\<close> and \<^verbatim>\<open>Frame\<close> first make sure a specification
  exists and then write into the last one.
\<close>

definition ensure_spec :: "'a windowViewDO_scheme \<Rightarrow> 'a windowViewDO_scheme" where
  "ensure_spec w =
     (if length (windowSpecs w) = 0 then w\<lparr>windowSpecs := windowSpecs w @ [zero_WindowSpec]\<rparr>
      else w)"

definition view_PartitionBy :: "'a windowViewDO_scheme \<Rightarrow> expr list \<Rightarrow> 'a windowViewDO_scheme" where
  "view_PartitionBy w columns =
     (let w = ensure_spec w; k = length (windowSpecs w) - 1
      in w\<lparr>windowSpecs := (windowSpecs w)[k := (windowSpecs w ! k)\<lparr>PartitionBy := columns\<rparr>]\<rparr>)"

definition WindowOrderBy :: "'a windowViewDO_scheme \<Rightarrow> expr list \<Rightarrow> 'a windowViewDO_scheme" where
  "WindowOrderBy w columns =
     (let w = ensure_spec w; k = length (windowSpecs w) - 1
      in w\<lparr>windowSpecs := (windowSpecs w)[k := (windowSpecs w ! k)\<lparr>OrderBy := columns\<rparr>]\<rparr>)"

definition view_Frame :: "'a windowViewDO_scheme \<Rightarrow> FrameSpec \<Rightarrow> 'a windowViewDO_scheme" where
  "view_Frame w frameSpec =
     (let w = ensure_spec w; k = length (windowSpecs w) - 1
      in w\<lparr>windowSpecs := (windowSpecs w)[k := (windowSpecs w ! k)\<lparr>Frame := Some frameSpec\<rparr>]\<rparr>)"

text \<open>
  The loop \<^verbatim>\<open>for i, windowFunc := range w.windowFuncs\<close> of \<^verbatim>\<open>Select\<close>: the
  specification is the zero value unless the index is within \<^verbatim>\<open>windowSpecs\<close>.
\<close>

fun range_windowFuncs ::
  "nat \<Rightarrow> field_WindowFunction list \<Rightarrow> WindowSpec list \<Rightarrow> expr list \<Rightarrow> expr list" where
  "range_windowFuncs i [] specs allColumns = allColumns"
| "range_windowFuncs i (windowFunc # rest) specs allColumns =
     (let spec = (if i < length specs then specs ! i else zero_WindowSpec);
          windowExpr = buildWindowExpression windowFunc spec
      in range_windowFuncs (Suc i) rest specs (allColumns @ [windowExpr]))"

text \<open>
  \<^verbatim>\<open>windowViewDO.Select\<close> ends in \<^verbatim>\<open>w.DO.Select(allColumns...)\<close>; the model returns
  the column list it hands over.
\<close>

definition windowViewDO_Select :: "windowViewDO \<Rightarrow> expr list \<Rightarrow> expr list" where
  "windowViewDO_Select w columns =
     (let allColumns = [] @ columns
      in range_windowFuncs 0 (windowFuncs w) (windowSpecs w) allColumns)"

subsection \<open>field.WindowFunction.Over\<close>

text \<open>
  The method of package field repeats the body of \<^verbatim>\<open>buildWindowExpression\<close>, except
  for the frame, of which it writes one fixed form only.
\<close>

definition field_Over :: "field_WindowFunction \<Rightarrow> WindowSpec \<Rightarrow> field_WindowFunction" where
  "field_Over w spec =
     (let overClause = '' OVER ('';
          vars = [];
          (overClause, vars) =
            (if length (PartitionBy spec) > 0
             then range_columns 0 (PartitionBy spec) (overClause @ ''PARTITION BY '', vars)
             else (overClause, vars));
          (overClause, vars) =
            (if length (OrderBy spec) > 0
             then range_columns 0 (OrderBy spec)
                    ((if length (PartitionBy spec) > 0 then overClause @ '' '' else overClause)
                       @ ''ORDER BY '', vars)
             else (overClause, vars));
          overClause =
            (case Frame spec of
               None \<Rightarrow> overClause
             | Some f \<Rightarrow>
                 (let overClause = overClause @ '' '' @ frame_Type f @ '' ''
                  in case End f of
                       None \<Rightarrow> overClause
                     | Some end_bound \<Rightarrow>
                         if bound_Type (Start f) = UnboundedPreceding
                            \<and> bound_Type end_bound = CurrentRow
                         then overClause @ ''UNBOUNDED PRECEDING AND CURRENT ROW''
                         else overClause));
          overClause = overClause @ '')'';
          sql = funcName w @ overClause;
          allVars = [RawExpr w] @ vars
      in \<lparr>col = col w, e = Some (Expr sql allVars), funcName = sql\<rparr>)"

section \<open>Package gen: common table expressions\<close>

text \<open>
  A sub-query belongs to the query builder. The compilers read it through its underlying
  database handle: the text \<^verbatim>\<open>ToSQL\<close> returns for it, in which the values are written
  out, and the handle's own \<^verbatim>\<open>Statement\<close> (nil, or the SQL text and the \<^verbatim>\<open>Vars\<close> it
  holds at that moment; \<^verbatim>\<open>ToSQL\<close> builds in a session of its own and leaves it as it
  was). \<open>Compiled\<close> is what the query builder compiles the sub-query to, the SQL text with
  placeholders and the parameters behind the \<^verbatim>\<open>ToSQL\<close> text; no function below reads it.
\<close>

record Statement =
  stmt_SQL :: string
  stmt_Vars :: "val list"

record SubQuery =
  ToSQL :: string
  Statement :: "Statement option"
  Compiled :: Statement

subsection \<open>WithQuery (with.go)\<close>

record WithClause =
  wc_Name :: string
  wc_Query :: SubQuery

record WithQuery =
  wq_db :: DB
  withClauses :: "WithClause list"

definition DO_With :: "DB \<Rightarrow> string \<Rightarrow> SubQuery \<Rightarrow> WithQuery" where
  "DO_With d name query = \<lparr>wq_db = d, withClauses = [\<lparr>wc_Name = name, wc_Query = query\<rparr>]\<rparr>"

definition With :: "WithQuery \<Rightarrow> string \<Rightarrow> SubQuery \<Rightarrow> WithQuery" where
  "With w name query = w\<lparr>withClauses := withClauses w @ [\<lparr>wc_Name = name, wc_Query = query\<rparr>]\<rparr>"

text \<open>The loop over \<^verbatim>\<open>w.withClauses\<close>; its state is \<^verbatim>\<open>withParts\<close> and \<^verbatim>\<open>allArgs\<close>.\<close>

fun range_withClauses ::
  "WithClause list \<Rightarrow> string list \<times> val list \<Rightarrow> string list \<times> val list" where
  "range_withClauses [] (withParts, allArgs) = (withParts, allArgs)"
| "range_withClauses (withClause # rest) (withParts, allArgs) =
     (let subDB = wc_Query withClause;
          sql = ToSQL subDB;
          (sql, allArgs) =
            (case Statement subDB of
               None \<Rightarrow> (sql, allArgs)
             | Some stmt \<Rightarrow> (stmt_SQL stmt, allArgs @ stmt_Vars stmt))
      in range_withClauses rest
           (withParts @ [wc_Name withClause @ '' AS ('' @ sql @ '')''], allArgs))"

text \<open>
  \<^verbatim>\<open>buildExpr4Select\<close> belongs to the query builder; it is a parameter here, giving
  the text and the arguments of the selected columns.
\<close>

definition WithQuery_Select ::
  "(expr list \<Rightarrow> string \<times> val list) \<Rightarrow> WithQuery \<Rightarrow> expr list \<Rightarrow> DB" where
  "WithQuery_Select buildExpr4Select w columns =
     (let (withParts, allArgs) = range_withClauses (withClauses w) ([], []);
          withSQL = ''WITH '' @ Join withParts '', '';
          newDB = Session (wq_db w)
      in if length columns > 0
         then (let (selectSQL, selectArgs) = buildExpr4Select columns;
                   finalSQL = withSQL @ '' SELECT '' @ selectSQL;
                   allArgs = allArgs @ selectArgs
               in Raw newDB finalSQL allArgs)
         else (let finalSQL = withSQL @ '' SELECT *''
               in Raw newDB finalSQL allArgs))"

subsection \<open>cteViewDO (cte.go)\<close>

record cteImpl =
  cte_name :: string
  cte_query :: SubQuery

definition CTEName :: "cteImpl \<Rightarrow> string" where
  "CTEName c = cte_name c"

definition CTEQuery :: "cteImpl \<Rightarrow> SubQuery" where
  "CTEQuery c = cte_query c"

record cteViewDO = windowViewDO +
  ctes :: "cteImpl list"
  fromCTE :: string

definition cteViewDO_WithCTE :: "cteViewDO \<Rightarrow> string \<Rightarrow> SubQuery \<Rightarrow> cteViewDO" where
  "cteViewDO_WithCTE c name query =
     c\<lparr>ctes := ctes c @ [\<lparr>cte_name = name, cte_query = query\<rparr>]\<rparr>"

definition FromCTE :: "cteViewDO \<Rightarrow> string \<Rightarrow> cteViewDO" where
  "FromCTE c cteName = c\<lparr>fromCTE := cteName, db := Table (db c) cteName\<rparr>"

text \<open>The loop \<^verbatim>\<open>for i, cte := range c.ctes\<close> of \<^verbatim>\<open>buildCTEQuery\<close>, on \<^verbatim>\<open>cteSQL\<close>.\<close>

fun range_ctes :: "nat \<Rightarrow> cteImpl list \<Rightarrow> string \<Rightarrow> string" where
  "range_ctes i [] cteSQL = cteSQL"
| "range_ctes i (cte # rest) cteSQL =
     (let cteSQL = (if i > 0 then cteSQL @ '', '' else cteSQL);
          query = CTEQuery cte;
          sql = ToSQL query
      in range_ctes (Suc i) rest (cteSQL @ CTEName cte @ '' AS ('' @ sql @ '')''))"

definition buildCTEQuery :: "cteViewDO \<Rightarrow> DB \<Rightarrow> DB" where
  "buildCTEQuery c d =
     (if length (ctes c) = 0 then d
      else (let cteVars = [];
                cteSQL = range_ctes 0 (ctes c) ''WITH ''
            in Raw d (cteSQL @ '' SELECT * FROM '' @ fromCTE c) cteVars))"

text \<open>
  \<^verbatim>\<open>cteViewDO.Select\<close> stores the rebuilt handle in the receiver and ends in
  \<^verbatim>\<open>c.DO.Select(allColumns...)\<close>; the model returns the column list together with the
  receiver as the call leaves it.
\<close>

definition cteViewDO_Select :: "cteViewDO \<Rightarrow> expr list \<Rightarrow> expr list \<times> cteViewDO" where
  "cteViewDO_Select c columns =
     (let allColumns = [] @ columns;
          allColumns = range_windowFuncs 0 (windowFuncs c) (windowSpecs c) allColumns;
          c = (if length (ctes c) > 0 then c\<lparr>db := buildCTEQuery c (db c)\<rparr> else c)
      in (allColumns, c))"

section \<open>The contract of the CTE compiler, in the words of the specification\<close>

record NamedSubquery =
  ns_name :: string
  compiledSQL :: string
  parameters :: "val list"

text \<open>
  \<open>WITH\<close>, then each entry as \<open>name AS (sql)\<close> separated by a comma and a space, then a
  single space and the base query; the parameters of the entries in order, then those of
  the base query.
\<close>

definition spec_compileWith ::
  "NamedSubquery list \<Rightarrow> string \<Rightarrow> val list \<Rightarrow> string \<times> val list" where
  "spec_compileWith entries baseSQL baseParameters =
     (''WITH '' @ Join (map (\<lambda>c. ns_name c @ '' AS ('' @ compiledSQL c @ '')'') entries) '', ''
        @ '' '' @ baseSQL,
      concat (map parameters entries) @ baseParameters)"

text \<open>
  The entry the contract speaks of: the name with the compiled SQL and the parameters of
  the sub-query.
\<close>

definition compiled_entry :: "string \<Rightarrow> SubQuery \<Rightarrow> NamedSubquery" where
  "compiled_entry name query =
     \<lparr>ns_name = name, compiledSQL = stmt_SQL (Compiled query),
      parameters = stmt_Vars (Compiled query)\<rparr>"

section \<open>What the two compilers read of an entry\<close>

text \<open>
  These follow the loops of the code, not the contract. \<^verbatim>\<open>WithQuery.Select\<close> takes the
  text and the \<^verbatim>\<open>Vars\<close> of the handle's own statement whenever the handle has one,
  whether that statement has been built or not, and the \<^verbatim>\<open>ToSQL\<close> text without values
  otherwise. \<^verbatim>\<open>buildCTEQuery\<close> takes the \<^verbatim>\<open>ToSQL\<close> text and never a value: \<^verbatim>\<open>cteVars\<close>
  stays empty. Neither needs to agree with the compiled SQL and parameters.
\<close>

definition WithClause_entry :: "WithClause \<Rightarrow> NamedSubquery" where
  "WithClause_entry c =
     (case Statement (wc_Query c) of
        None \<Rightarrow> \<lparr>ns_name = wc_Name c, compiledSQL = ToSQL (wc_Query c), parameters = []\<rparr>
      | Some stmt \<Rightarrow>
          \<lparr>ns_name = wc_Name c, compiledSQL = stmt_SQL stmt, parameters = stmt_Vars stmt\<rparr>)"

definition cteImpl_entry :: "cteImpl \<Rightarrow> NamedSubquery" where
  "cteImpl_entry c =
     \<lparr>ns_name = cte_name c, compiledSQL = ToSQL (cte_query c), parameters = []\<rparr>"

section \<open>Closed forms and sample inputs used to state the properties\<close>

text \<open>The text of one frame bound: a placeholder when an offset is present, then the kind.\<close>

definition bound_text :: "FrameBound \<Rightarrow> string" where
  "bound_text b = (if Offset b \<noteq> None then ''? '' else []) @ bound_Type b"

text \<open>The \<open>OVER\<close> clause that \<^verbatim>\<open>buildWindowExpression\<close> assembles, written as one term.\<close>

definition over_text :: "WindowSpec \<Rightarrow> string" where
  "over_text spec =
     '' OVER (''
     @ (if PartitionBy spec \<noteq> []
        then ''PARTITION BY '' @ Join (replicate (length (PartitionBy spec)) ''?'') '', ''
        else [])
     @ (if OrderBy spec \<noteq> []
        then (if PartitionBy spec \<noteq> [] then '' '' else [])
             @ ''ORDER BY '' @ Join (replicate (length (OrderBy spec)) ''?'') '', ''
        else [])
     @ (case Frame spec of
          None \<Rightarrow> []
        | Some f \<Rightarrow> '' '' @ frame_Type f @ '' '' @ buildFrameClause f)
     @ '')''"

text \<open>The specification a window function at index \<open>i\<close> is compiled with.\<close>

definition spec_at :: "WindowSpec list \<Rightarrow> nat \<Rightarrow> WindowSpec" where
  "spec_at specs i = (if i < length specs then specs ! i else zero_WindowSpec)"

text \<open>The number of positional placeholders in a SQL text.\<close>

definition placeholders :: "string \<Rightarrow> nat" where
  "placeholders s = count_list s (CHR ''?'')"

text \<open>
  The argument parameters of a window function: the \<^verbatim>\<open>Vars\<close> of the expression its
  constructor builds.
\<close>

definition argumentParameters :: "field_WindowFunction \<Rightarrow> val list" where
  "argumentParameters w = (case e w of None \<Rightarrow> [] | Some x \<Rightarrow> Vars x)"

text \<open>
  Positional binding gives the k-th value of the parameter list to the k-th placeholder
  of the text. The placeholders of the function text come first, so the placeholders of
  the \<open>OVER\<close> clause receive the values that follow as many values as the function text
  has placeholders.
\<close>

definition over_clause_values :: "string \<Rightarrow> clause_Expr \<Rightarrow> val list" where
  "over_clause_values fname x =
     take (placeholders (SQL x) - placeholders fname) (drop (placeholders fname) (Vars x))"

text \<open>The text and the arguments of the \<^verbatim>\<open>Raw\<close> call a handle ends with, if it does.\<close>

fun last_Raw :: "DB \<Rightarrow> (string \<times> val list) option" where
  "last_Raw (Raw d sql vars) = Some (sql, vars)"
| "last_Raw d = None"

text \<open>Sample inputs.\<close>

definition frame_2_2 :: FrameSpec where
  "frame_2_2 =
     \<lparr>frame_Type = FrameRows,
      Start = \<lparr>bound_Type = Preceding, Offset = Some (IntV 2)\<rparr>,
      End = Some \<lparr>bound_Type = Following, Offset = Some (IntV 2)\<rparr>\<rparr>"

definition salary :: expr where
  "salary =
     \<lparr>col = \<lparr>col_Table = ''users'', col_Name = ''salary'', col_Alias = [], col_Raw = False\<rparr>,
      e = None\<rparr>"

definition department :: expr where
  "department =
     \<lparr>col = \<lparr>col_Table = ''users'', col_Name = ''department'', col_Alias = [], col_Raw = False\<rparr>,
      e = None\<rparr>"

definition select_star :: "expr list \<Rightarrow> string \<times> val list" where
  "select_star columns = (''*'', [])"

text \<open>
  Two sub-queries made with \<^verbatim>\<open>Raw\<close>, whose handles hold the built statement, and one
  made with the builder (\<^verbatim>\<open>Where\<close>), whose handle holds a statement that has not been
  built: no text and no values yet.
\<close>

definition q1 :: SubQuery where
  "q1 = \<lparr>ToSQL = ''SELECT * FROM t WHERE a = 1'',
         Statement = Some \<lparr>stmt_SQL = ''SELECT * FROM t WHERE a = ?'', stmt_Vars = [IntV 1]\<rparr>,
         Compiled = \<lparr>stmt_SQL = ''SELECT * FROM t WHERE a = ?'', stmt_Vars = [IntV 1]\<rparr>\<rparr>"

definition q2 :: SubQuery where
  "q2 = \<lparr>ToSQL = ''SELECT * FROM u WHERE b = 2'',
         Statement = Some \<lparr>stmt_SQL = ''SELECT * FROM u WHERE b = ?'', stmt_Vars = [IntV 2]\<rparr>,
         Compiled = \<lparr>stmt_SQL = ''SELECT * FROM u WHERE b = ?'', stmt_Vars = [IntV 2]\<rparr>\<rparr>"

definition q_built :: SubQuery where
  "q_built =
     \<lparr>ToSQL = ''SELECT * FROM t WHERE a = 1'',
      Statement = Some \<lparr>stmt_SQL = [], stmt_Vars = []\<rparr>,
      Compiled = \<lparr>stmt_SQL = ''SELECT * FROM t WHERE a = ?'', stmt_Vars = [IntV 1]\<rparr>\<rparr>"

definition view_built :: cteViewDO where
  "view_built =
     \<lparr>db = Conn ''db'', windowFuncs = [], windowSpecs = [],
      ctes = [\<lparr>cte_name = ''a'', cte_query = q_built\<rparr>], fromCTE = ''a''\<rparr>"

definition view_x :: cteViewDO where
  "view_x =
     \<lparr>db = Conn ''db'', windowFuncs = [], windowSpecs = [],
      ctes = [\<lparr>cte_name = ''x'', cte_query = q1\<rparr>], fromCTE = ''x''\<rparr>"

section \<open>Properties\<close>

subsection \<open>The loops in closed form\<close>

lemma Join_Cons: "Join (x # ys) sep = x @ (if ys = [] then [] else sep @ Join ys sep)"
  by (cases ys) simp_all

lemma range_columns_eq:
  "range_columns i cs (oc, vs) =
     (oc @ (if i > 0 \<and> cs \<noteq> [] then '', '' else []) @ Join (replicate (length cs) ''?'') '', '',
      vs @ map RawExpr cs)"
proof (induction cs arbitrary: i oc vs)
  case Nil
  then show ?case by simp
next
  case (Cons c cs)
  have "range_columns i (c # cs) (oc, vs) =
        range_columns (Suc i) cs ((if i > 0 then oc @ '', '' else oc) @ ''?'', vs @ [RawExpr c])"
    by simp
  also have "\<dots> =
      (((if i > 0 then oc @ '', '' else oc) @ ''?'')
         @ (if Suc i > 0 \<and> cs \<noteq> [] then '', '' else [])
         @ Join (replicate (length cs) ''?'') '', '',
       (vs @ [RawExpr c]) @ map RawExpr cs)"
    by (rule Cons.IH)
  also have "\<dots> =
      (oc @ (if i > 0 \<and> c # cs \<noteq> [] then '', '' else [])
         @ Join (replicate (length (c # cs)) ''?'') '', '',
       vs @ map RawExpr (c # cs))"
    by (cases cs) simp_all
  finally show ?case .
qed

lemma take_before_suffix: "take (length (xs @ t) - length t) (xs @ t) = xs"
  by simp

lemma buildFrameClause_eq:
  "buildFrameClause f =
     bound_text (Start f) @ (case End f of None \<Rightarrow> [] | Some b \<Rightarrow> '' AND '' @ bound_text b)"
proof (cases "End f")
  case None
  then show ?thesis
    by (simp add: buildFrameClause_def bound_text_def Let_def)
next
  case (Some b)
  define r where "r = (if Offset (Start f) \<noteq> None then ''? '' @ bound_Type (Start f)
                       else bound_Type (Start f))"
  have r: "r = bound_text (Start f)"
    by (simp add: r_def bound_text_def)
  have cut: "take (length (r @ '' AND '' @ bound_Type b) - length (bound_Type b))
               (r @ '' AND '' @ bound_Type b) = r @ '' AND ''"
    using take_before_suffix [of "r @ '' AND ''" "bound_Type b"] by simp
  have "buildFrameClause f =
          (if Offset b \<noteq> None
           then take (length (r @ '' AND '' @ bound_Type b) - length (bound_Type b))
                  (r @ '' AND '' @ bound_Type b) @ ''? '' @ bound_Type b
           else r @ '' AND '' @ bound_Type b)"
    unfolding buildFrameClause_def Let_def r_def using Some by simp
  also have "\<dots> = r @ '' AND '' @ bound_text b"
    unfolding cut by (simp add: bound_text_def)
  finally show ?thesis
    using Some r by simp
qed

lemma buildWindowExpression_eq:
  "buildWindowExpression wfn spec =
     NewExpr (Expr (funcName wfn @ over_text spec)
                (RawExpr wfn # map RawExpr (PartitionBy spec) @ map RawExpr (OrderBy spec)))"
  by (simp add: buildWindowExpression_def over_text_def range_columns_eq WindowFuncName_def
      Let_def split: option.split)

lemma field_Over_no_frame:
  "Frame spec = None \<Longrightarrow>
   field_Over wfn spec =
     \<lparr>col = col wfn,
      e = Some (Expr (funcName wfn @ over_text spec)
                  (RawExpr wfn # map RawExpr (PartitionBy spec) @ map RawExpr (OrderBy spec))),
      funcName = funcName wfn @ over_text spec\<rparr>"
  by (simp add: field_Over_def over_text_def range_columns_eq Let_def)

lemma buildSQL_eq:
  "buildSQL w =
     Function w @ '' OVER (''
     @ (case overClause w of
          None \<Rightarrow> []
        | Some oc \<Rightarrow>
            Join ((if partitionBy oc \<noteq> []
                   then [''PARTITION BY '' @ Join (map ColumnName (partitionBy oc)) '', '']
                   else [])
                  @ (if orderBy oc \<noteq> []
                     then [''ORDER BY '' @ Join (map ColumnName (orderBy oc)) '', '']
                     else [])
                  @ (case frame oc of
                       None \<Rightarrow> []
                     | Some fr \<Rightarrow>
                         [fc_Type fr
                          @ (if fc_End fr \<noteq> []
                             then '' BETWEEN '' @ fc_Start fr @ '' AND '' @ fc_End fr
                             else '' '' @ fc_Start fr)]))
              '' '')
     @ '')''"
  by (simp add: buildSQL_def Let_def split: option.split)

lemma range_withClauses_eq:
  "range_withClauses cs (ps, as) =
     (ps @ map (\<lambda>c. ns_name c @ '' AS ('' @ compiledSQL c @ '')'') (map WithClause_entry cs),
      as @ concat (map parameters (map WithClause_entry cs)))"
  by (induction cs arbitrary: ps as)
     (simp_all add: WithClause_entry_def Let_def split: option.split)

lemma range_ctes_eq:
  "range_ctes i cs acc =
     acc @ (if i > 0 \<and> cs \<noteq> [] then '', '' else [])
       @ Join (map (\<lambda>c. ns_name c @ '' AS ('' @ compiledSQL c @ '')'') (map cteImpl_entry cs)) '', ''"
proof (induction cs arbitrary: i acc)
  case Nil
  then show ?case by simp
next
  case (Cons c cs)
  show ?case
    by (simp add: Cons.IH Let_def CTEName_def CTEQuery_def cteImpl_entry_def Join_Cons
        del: Join.simps(2,3))
qed

lemma range_windowFuncs_eq:
  "range_windowFuncs i fs specs acc =
     acc @ map (\<lambda>k. buildWindowExpression (fs ! k) (spec_at specs (i + k))) [0..<length fs]"
proof (induction fs arbitrary: i acc)
  case Nil
  then show ?case by simp
next
  case (Cons f fs)
  have "map (\<lambda>k. buildWindowExpression ((f # fs) ! k) (spec_at specs (i + k))) [0..<length (f # fs)]
        = buildWindowExpression f (spec_at specs i)
          # map (\<lambda>k. buildWindowExpression (fs ! k) (spec_at specs (Suc i + k))) [0..<length fs]"
    by (simp add: upt_conv_Cons map_Suc_upt [symmetric] del: upt_Suc)
  then show ?case
    by (simp add: Cons.IH Let_def spec_at_def del: upt_Suc)
qed

lemma WithQuery_Select_eq:
  "WithQuery_Select b w columns =
     (let base = (if columns \<noteq> [] then (''SELECT '' @ fst (b columns), snd (b columns))
                  else (''SELECT *'', []));
          r = spec_compileWith (map WithClause_entry (withClauses w)) (fst base) (snd base)
      in Raw (Session (wq_db w)) (fst r) (snd r))"
  by (simp add: WithQuery_Select_def range_withClauses_eq spec_compileWith_def Let_def
      split: prod.split)

lemma buildCTEQuery_eq:
  "ctes c \<noteq> [] \<Longrightarrow>
   buildCTEQuery c d =
     (let r = spec_compileWith (map cteImpl_entry (ctes c)) (''SELECT * FROM '' @ fromCTE c) []
      in Raw d (fst r) (snd r))"
  by (simp add: buildCTEQuery_def range_ctes_eq spec_compileWith_def Let_def cteImpl_entry_def
      comp_def)

lemma cteViewDO_Select_eq:
  "cteViewDO_Select c columns =
     (columns @ map (\<lambda>k. buildWindowExpression (windowFuncs c ! k) (spec_at (windowSpecs c) k))
                  [0..<length (windowFuncs c)],
      if ctes c \<noteq> [] then c\<lparr>db := buildCTEQuery c (db c)\<rparr> else c)"
  by (simp add: cteViewDO_Select_def range_windowFuncs_eq Let_def)

lemma count_Join_replicate: "count_list (Join (replicate n ''?'') '', '') (CHR ''?'') = n"
proof (induction n)
  case 0
  then show ?case by simp
next
  case (Suc n)
  then show ?case
    by (cases n) simp_all
qed

lemma placeholders_over_no_frame:
  "placeholders (over_text \<lparr>PartitionBy = ps, OrderBy = os, Frame = None\<rparr>)
     = length ps + length os"
  by (simp add: over_text_def placeholders_def count_Join_replicate)

text \<open>
  The string-based sibling in with.go writes the \<open>BETWEEN\<close> form when an end bound is
  given.
\<close>

lemma buildSQL_frame_between:
  "buildSQL \<lparr>Function = ''SUM(amount)'',
      overClause = Some (Rows \<lparr>partitionBy = [], orderBy = [], frame = None\<rparr>
                           ''2 PRECEDING'' ''2 FOLLOWING'')\<rparr>
     = ''SUM(amount) OVER (ROWS BETWEEN 2 PRECEDING AND 2 FOLLOWING)''"
  by (simp add: buildSQL_def Rows_def)

subsection \<open>The CTE compiler\<close>

text \<open>
  With sub-queries whose handle holds the built statement, \<^verbatim>\<open>WithQuery.Select\<close> gives
  the text and the parameters of the contract.
\<close>

lemma WithQuery_Select_built_statements:
  "WithQuery_Select select_star (With (DO_With (Conn ''db'') ''a'' q1) ''b'' q2) []
     = Raw (Session (Conn ''db''))
         ''WITH a AS (SELECT * FROM t WHERE a = ?), b AS (SELECT * FROM u WHERE b = ?) SELECT *''
         [IntV 1, IntV 2]"
  by (simp add: WithQuery_Select_eq With_def DO_With_def q1_def q2_def spec_compileWith_def
      WithClause_entry_def)

text \<open>\<^verbatim>\<open>buildCTEQuery\<close> hands no parameter to \<^verbatim>\<open>Raw\<close>, whatever the sub-queries are.\<close>

lemma buildCTEQuery_no_parameters:
  "ctes c \<noteq> [] \<Longrightarrow> last_Raw (buildCTEQuery c d) = Some (sql, vars) \<Longrightarrow> vars = []"
  by (auto simp add: buildCTEQuery_def Let_def)

text \<open>
  C1 does not hold of the code. For a CTE \<open>a\<close> whose sub-query was made with the builder
  and compiles to \<open>SELECT * FROM t WHERE a = ?\<close> with the parameter 1, the contract gives
  \<open>WITH a AS (SELECT * FROM t WHERE a = ?)\<close> followed by the base query, with the
  parameter 1. \<^verbatim>\<open>WithQuery.Select\<close> replaces the \<^verbatim>\<open>ToSQL\<close> text by the text of the
  handle's statement, which has not been built: the CTE body is empty and the parameter
  is lost. \<^verbatim>\<open>buildCTEQuery\<close> writes the text with the value in it and hands over no
  parameter.
\<close>

theorem with_list_loses_subquery:
  "WithQuery_Select select_star (DO_With (Conn ''db'') ''a'' q_built) []
     = Raw (Session (Conn ''db'')) ''WITH a AS () SELECT *'' []
   \<and> spec_compileWith [compiled_entry ''a'' q_built] ''SELECT *'' []
     = (''WITH a AS (SELECT * FROM t WHERE a = ?) SELECT *'', [IntV 1])
   \<and> buildCTEQuery view_built (Conn ''db'')
     = Raw (Conn ''db'') ''WITH a AS (SELECT * FROM t WHERE a = 1) SELECT * FROM a'' []
   \<and> spec_compileWith [compiled_entry ''a'' q_built] ''SELECT * FROM a'' []
     = (''WITH a AS (SELECT * FROM t WHERE a = ?) SELECT * FROM a'', [IntV 1])"
  by (simp add: WithQuery_Select_eq buildCTEQuery_eq DO_With_def view_built_def q_built_def
      spec_compileWith_def WithClause_entry_def cteImpl_entry_def compiled_entry_def)

text \<open>
  C5, as stated, fails: two CTEs named \<open>x\<close> compile to a statement that lists both; no
  error is reported by \<^verbatim>\<open>With\<close>, by \<^verbatim>\<open>Select\<close> or by \<^verbatim>\<open>WithCTE\<close>.
\<close>

theorem duplicate_names_counterexample:
  "WithQuery_Select select_star (With (DO_With (Conn ''db'') ''x'' q1) ''x'' q2) []
     = Raw (Session (Conn ''db''))
         ''WITH x AS (SELECT * FROM t WHERE a = ?), x AS (SELECT * FROM u WHERE b = ?) SELECT *''
         [IntV 1, IntV 2]
   \<and> ctes (cteViewDO_WithCTE view_x ''x'' q2)
     = [\<lparr>cte_name = ''x'', cte_query = q1\<rparr>, \<lparr>cte_name = ''x'', cte_query = q2\<rparr>]"
  by (simp add: WithQuery_Select_eq With_def DO_With_def q1_def q2_def spec_compileWith_def
      WithClause_entry_def cteViewDO_WithCTE_def view_x_def)

text \<open>
  C5, amended. Adding a CTE whose name is already in the list appends it like any other:
  the list keeps both entries in declaration order, and compiling emits both.
\<close>

theorem duplicate_names_are_kept:
  "name \<in> set (map wc_Name (withClauses w)) \<and> name \<in> set (map cte_name (ctes c)) \<Longrightarrow>
   withClauses (With w name query) = withClauses w @ [\<lparr>wc_Name = name, wc_Query = query\<rparr>]
   \<and> WithQuery_Select b (With w name query) [] =
       (let r = spec_compileWith
                  (map WithClause_entry (withClauses w)
                     @ [WithClause_entry \<lparr>wc_Name = name, wc_Query = query\<rparr>])
                  ''SELECT *'' []
        in Raw (Session (wq_db w)) (fst r) (snd r))
   \<and> ctes (cteViewDO_WithCTE c name query) = ctes c @ [\<lparr>cte_name = name, cte_query = query\<rparr>]"
  by (simp add: WithQuery_Select_eq With_def cteViewDO_WithCTE_def)

text \<open>C5, amended, at a second CTE named \<open>x\<close>.\<close>

theorem duplicate_names_are_kept_witness:
  "''x'' \<in> set (map wc_Name (withClauses (DO_With (Conn ''db'') ''x'' q1)))
   \<and> ''x'' \<in> set (map cte_name (ctes view_x))
   \<and> withClauses (With (DO_With (Conn ''db'') ''x'' q1) ''x'' q2)
       = [\<lparr>wc_Name = ''x'', wc_Query = q1\<rparr>, \<lparr>wc_Name = ''x'', wc_Query = q2\<rparr>]
   \<and> WithQuery_Select select_star (With (DO_With (Conn ''db'') ''x'' q1) ''x'' q2) []
       = Raw (Session (Conn ''db''))
           ''WITH x AS (SELECT * FROM t WHERE a = ?), x AS (SELECT * FROM u WHERE b = ?) SELECT *''
           [IntV 1, IntV 2]
   \<and> ctes (cteViewDO_WithCTE view_x ''x'' q2)
       = [\<lparr>cte_name = ''x'', cte_query = q1\<rparr>, \<lparr>cte_name = ''x'', cte_query = q2\<rparr>]"
proof -
  have h: "''x'' \<in> set (map wc_Name (withClauses (DO_With (Conn ''db'') ''x'' q1)))
           \<and> ''x'' \<in> set (map cte_name (ctes view_x))"
    by (simp add: DO_With_def view_x_def)
  show ?thesis
    using h duplicate_names_are_kept [OF h, of q2 select_star]
    by (simp add: DO_With_def q1_def q2_def spec_compileWith_def WithClause_entry_def
        view_x_def)
qed

subsection \<open>The window expression compiler\<close>

text \<open>
  C2 does not hold of the code. \<^verbatim>\<open>buildWindowExpression\<close> always puts the function's own
  expression first in the parameter list, also when the function's text has no
  placeholder or has several; and the placeholders that \<^verbatim>\<open>buildFrameClause\<close> writes for
  frame offsets get no parameter. \<^verbatim>\<open>field.WindowFunction.Over\<close> collects the function's
  expression in the same way.
\<close>

theorem placeholders_without_parameters:
  "e (buildWindowExpression RowNumberFunc zero_WindowSpec)
     = Some (Expr ''ROW_NUMBER() OVER ()'' [ExprV (Expr ''ROW_NUMBER()'' [])])
   \<and> placeholders ''ROW_NUMBER() OVER ()'' = 0
   \<and> e (buildWindowExpression RowNumberFunc \<lparr>PartitionBy = [], OrderBy = [], Frame = Some frame_2_2\<rparr>)
     = Some (Expr ''ROW_NUMBER() OVER ( ROWS ? PRECEDING AND ? FOLLOWING)''
               [ExprV (Expr ''ROW_NUMBER()'' [])])
   \<and> placeholders ''ROW_NUMBER() OVER ( ROWS ? PRECEDING AND ? FOLLOWING)'' = 2
   \<and> e (buildWindowExpression (Lag salary 1 []) zero_WindowSpec)
     = Some (Expr ''LAG(?, ?) OVER ()'' [ExprV (Expr ''LAG(?, ?)'' [RawExpr salary, IntV 1])])
   \<and> placeholders ''LAG(?, ?) OVER ()'' = 2
   \<and> e (field_Over RowNumberFunc zero_WindowSpec)
     = Some (Expr ''ROW_NUMBER() OVER ()'' [ExprV (Expr ''ROW_NUMBER()'' [])])"
  by (simp add: buildWindowExpression_eq field_Over_no_frame over_text_def NewExpr_def
      RowNumberFunc_def RawExpr_def zero_WindowSpec_def placeholders_def buildFrameClause_eq
      bound_text_def frame_2_2_def Preceding_def Following_def FrameRows_def Lag_def Let_def)

text \<open>
  C3 does not hold of the code. For the \<open>ROWS\<close> frame from 2 \<open>PRECEDING\<close> to 2
  \<open>FOLLOWING\<close>, \<^verbatim>\<open>buildFrameClause\<close> joins the two bounds with \<open>AND\<close> alone and writes
  placeholders for the offsets: the word \<open>BETWEEN\<close> is missing and the rendering is not
  \<open>ROWS BETWEEN 2 PRECEDING AND 2 FOLLOWING\<close>.
\<close>

theorem frame_clause_lacks_between:
  "buildFrameClause frame_2_2 = ''? PRECEDING AND ? FOLLOWING''
   \<and> e (buildWindowExpression (WindowSum salary)
          \<lparr>PartitionBy = [], OrderBy = [], Frame = Some frame_2_2\<rparr>)
       = Some (Expr ''SUM(?) OVER ( ROWS ? PRECEDING AND ? FOLLOWING)''
                 [ExprV (Expr ''SUM(?)'' [RawExpr salary])])
   \<and> \<not> sublist ''BETWEEN'' (buildFrameClause frame_2_2)
   \<and> FrameRows @ '' '' @ buildFrameClause frame_2_2 \<noteq> ''ROWS BETWEEN 2 PRECEDING AND 2 FOLLOWING''"
proof -
  have fc: "buildFrameClause frame_2_2 = ''? PRECEDING AND ? FOLLOWING''"
    by (simp add: buildFrameClause_eq bound_text_def frame_2_2_def Preceding_def Following_def)
  have nb: "\<not> sublist ''BETWEEN'' ''? PRECEDING AND ? FOLLOWING''"
    by code_simp
  have ft: "frame_Type frame_2_2 = ''ROWS''"
    by (simp add: frame_2_2_def FrameRows_def)
  have we: "e (buildWindowExpression (WindowSum salary)
          \<lparr>PartitionBy = [], OrderBy = [], Frame = Some frame_2_2\<rparr>)
       = Some (Expr ''SUM(?) OVER ( ROWS ? PRECEDING AND ? FOLLOWING)''
                 [ExprV (Expr ''SUM(?)'' [RawExpr salary])])"
    by (simp add: buildWindowExpression_eq over_text_def fc ft NewExpr_def WindowSum_def
        RawExpr_def Let_def)
  show ?thesis
    using fc nb we by (simp add: FrameRows_def)
qed

text \<open>
  With the zero-value specification the text is the function text followed by
  \<open>OVER ()\<close>, in \<^verbatim>\<open>buildWindowExpression\<close> and in the string-based compiler of with.go,
  whether its clause was never created or was created and left empty. Neither can fail.
\<close>

lemma zero_spec_text:
  "map_option SQL (e (buildWindowExpression wfn zero_WindowSpec))
     = Some (WindowFuncName wfn @ '' OVER ()'')
   \<and> buildSQL \<lparr>Function = fname, overClause = None\<rparr> = fname @ '' OVER ()''
   \<and> buildSQL (Over \<lparr>Function = fname, overClause = None\<rparr>) = fname @ '' OVER ()''"
  by (simp add: buildWindowExpression_eq over_text_def zero_WindowSpec_def WindowFuncName_def
      NewExpr_def buildSQL_def Over_def)

text \<open>
  C4 does not hold of the code in its parameters. With the zero-value specification the
  text is as claimed, but the parameter list is not the function's argument parameters:
  it always holds one value, the function's whole expression. For \<open>ROW_NUMBER()\<close>, which
  has no argument, one parameter is collected; for \<open>LAG(?, ?)\<close> the two arguments arrive
  as one nested value.
\<close>

theorem zero_spec_collects_function_expression:
  "e (buildWindowExpression RowNumberFunc zero_WindowSpec)
     = Some (Expr ''ROW_NUMBER() OVER ()'' [ExprV (Expr ''ROW_NUMBER()'' [])])
   \<and> argumentParameters RowNumberFunc = []
   \<and> e (buildWindowExpression (Lag salary 1 []) zero_WindowSpec)
     = Some (Expr ''LAG(?, ?) OVER ()'' [ExprV (Expr ''LAG(?, ?)'' [RawExpr salary, IntV 1])])
   \<and> argumentParameters (Lag salary 1 []) = [RawExpr salary, IntV 1]"
  by (simp add: buildWindowExpression_eq over_text_def zero_WindowSpec_def NewExpr_def
      RowNumberFunc_def Lag_def RawExpr_def argumentParameters_def Let_def)

text \<open>
  C6, as stated, fails: for an \<open>ORDER BY\<close> column built with \<^verbatim>\<open>Desc()\<close> the emitted text
  has a placeholder and no \<open>DESC\<close> suffix; the direction travels inside the parameter.
\<close>

theorem order_direction_counterexample:
  "e (buildWindowExpression RowNumberFunc
        \<lparr>PartitionBy = [], OrderBy = [Desc salary], Frame = None\<rparr>)
     = Some (Expr ''ROW_NUMBER() OVER (ORDER BY ?)''
               [ExprV (Expr ''ROW_NUMBER()'' []),
                ExprV (Expr ''? DESC'' [ColumnV (col salary)])])"
  by (simp add: buildWindowExpression_eq over_text_def NewExpr_def RowNumberFunc_def RawExpr_def
      Desc_def setE_def salary_def)

text \<open>
  C6, amended. The window compiler emits, in this order: the function text; \<open> OVER (\<close>;
  if there are partition columns, \<open>PARTITION BY\<close> and one placeholder per column, comma
  separated; if there are order columns, a space when partitioning was emitted, then
  \<open>ORDER BY\<close> and one placeholder per column, comma separated, with no direction
  keyword after it; if there is a frame, a space, the frame unit, a space and the frame
  clause; and \<open>)\<close>.
\<close>

theorem window_emission_order:
  "map_option SQL (e (buildWindowExpression wfn spec)) =
     Some
       (WindowFuncName wfn
        @ '' OVER (''
        @ (if PartitionBy spec \<noteq> []
           then ''PARTITION BY '' @ Join (replicate (length (PartitionBy spec)) ''?'') '', ''
           else [])
        @ (if OrderBy spec \<noteq> []
           then (if PartitionBy spec \<noteq> [] then '' '' else [])
                @ ''ORDER BY '' @ Join (replicate (length (OrderBy spec)) ''?'') '', ''
           else [])
        @ (case Frame spec of
             None \<Rightarrow> []
           | Some f \<Rightarrow> '' '' @ frame_Type f @ '' '' @ buildFrameClause f)
        @ '')'')"
  by (simp add: buildWindowExpression_eq over_text_def NewExpr_def WindowFuncName_def)

text \<open>
  C7, as stated, fails: a \<open>PRECEDING\<close> bound without offset and a \<open>CURRENT ROW\<close> bound
  with an offset are both rendered; \<^verbatim>\<open>buildFrameClause\<close> returns a string in every case.
\<close>

theorem frame_offsets_counterexample:
  "buildFrameClause \<lparr>frame_Type = FrameRows,
       Start = \<lparr>bound_Type = Preceding, Offset = None\<rparr>, End = None\<rparr> = ''PRECEDING''
   \<and> buildFrameClause \<lparr>frame_Type = FrameRows,
       Start = \<lparr>bound_Type = CurrentRow, Offset = Some (IntV 5)\<rparr>, End = None\<rparr>
       = ''? CURRENT ROW''"
  by (simp add: buildFrameClause_def Preceding_def CurrentRow_def)

text \<open>
  C7, amended. Rendering a frame checks nothing: a bound of any kind without an offset is
  rendered as its kind alone, and a bound of any kind with an offset as a placeholder, a
  space and its kind, for the start bound and for the end bound alike.
\<close>

theorem frame_bounds_render_without_check:
  "buildFrameClause \<lparr>frame_Type = u, Start = \<lparr>bound_Type = k, Offset = None\<rparr>, End = None\<rparr> = k
   \<and> buildFrameClause \<lparr>frame_Type = u, Start = \<lparr>bound_Type = k, Offset = Some v\<rparr>, End = None\<rparr>
       = ''? '' @ k
   \<and> buildFrameClause \<lparr>frame_Type = u, Start = s, End = Some \<lparr>bound_Type = k, Offset = None\<rparr>\<rparr>
       = bound_text s @ '' AND '' @ k
   \<and> buildFrameClause \<lparr>frame_Type = u, Start = s, End = Some \<lparr>bound_Type = k, Offset = Some v\<rparr>\<rparr>
       = bound_text s @ '' AND ? '' @ k"
  by (simp add: buildFrameClause_eq bound_text_def)

text \<open>
  The string-based compiler of with.go writes the column names of each list, comma
  separated, as supplied.
\<close>

lemma buildSQL_columns_in_order:
  "buildSQL \<lparr>Function = fname,
        overClause = Some \<lparr>partitionBy = ps, orderBy = os, frame = None\<rparr>\<rparr>
     = fname @ '' OVER (''
       @ Join ((if ps \<noteq> [] then [''PARTITION BY '' @ Join (map ColumnName ps) '', ''] else [])
               @ (if os \<noteq> [] then [''ORDER BY '' @ Join (map ColumnName os) '', ''] else []))
           '' ''
       @ '')''"
  by (simp add: buildSQL_eq)

text \<open>
  C8 does not hold of the code. \<^verbatim>\<open>buildWindowExpression\<close> writes the columns of the
  \<open>OVER\<close> clause as placeholders, so which column stands where is decided by the
  parameter list alone. For \<open>ROW_NUMBER()\<close> partitioned by \<open>department\<close> and ordered by
  \<open>salary\<close> descending, the list starts with the function's expression, and the text
  of the function has no placeholder: the placeholder after \<open>PARTITION BY\<close> receives the
  function's expression and the one after \<open>ORDER BY\<close> receives \<open>department\<close>, not
  \<open>department\<close> and \<open>salary\<close> descending as supplied.
\<close>

theorem over_clause_columns_shifted:
  "e (buildWindowExpression RowNumberFunc
        \<lparr>PartitionBy = [department], OrderBy = [Desc salary], Frame = None\<rparr>)
     = Some (Expr ''ROW_NUMBER() OVER (PARTITION BY ? ORDER BY ?)''
               [ExprV (Expr ''ROW_NUMBER()'' []),
                ColumnV (col department),
                ExprV (Expr ''? DESC'' [ColumnV (col salary)])])
   \<and> over_clause_values ''ROW_NUMBER()''
        (Expr ''ROW_NUMBER() OVER (PARTITION BY ? ORDER BY ?)''
           [ExprV (Expr ''ROW_NUMBER()'' []),
            ColumnV (col department),
            ExprV (Expr ''? DESC'' [ColumnV (col salary)])])
     = [ExprV (Expr ''ROW_NUMBER()'' []), ColumnV (col department)]
   \<and> map RawExpr [department] @ map RawExpr [Desc salary]
     = [ColumnV (col department), ExprV (Expr ''? DESC'' [ColumnV (col salary)])]
   \<and> over_clause_values ''ROW_NUMBER()''
        (Expr ''ROW_NUMBER() OVER (PARTITION BY ? ORDER BY ?)''
           [ExprV (Expr ''ROW_NUMBER()'' []),
            ColumnV (col department),
            ExprV (Expr ''? DESC'' [ColumnV (col salary)])])
     \<noteq> map RawExpr [department] @ map RawExpr [Desc salary]"
  by (simp add: buildWindowExpression_eq over_text_def NewExpr_def RowNumberFunc_def RawExpr_def
      Desc_def setE_def salary_def department_def over_clause_values_def placeholders_def)

text \<open>
  C9. Compiling twice gives the same result. The compilers are functions of the
  specification; the one method that writes to its receiver, \<^verbatim>\<open>cteViewDO.Select\<close>,
  returns the same columns and the same \<^verbatim>\<open>Raw\<close> text and arguments when called again on
  the receiver it left. Creating the \<open>OVER\<close> clause through \<^verbatim>\<open>Over()\<close> does not change
  the text of a window function, and neither compiler depends on the database handle.
\<close>

theorem compiling_twice_is_identical:
  "(let (columns1, c1) = cteViewDO_Select c columns;
        (columns2, c2) = cteViewDO_Select c1 columns
    in columns2 = columns1 \<and> last_Raw (db c2) = last_Raw (db c1))
   \<and> buildSQL (Over w) = buildSQL w
   \<and> last_Raw (WithQuery_Select b (q\<lparr>wq_db := d\<rparr>) columns)
       = last_Raw (WithQuery_Select b q columns)
   \<and> windowViewDO_Select (v\<lparr>db := d\<rparr>) columns = windowViewDO_Select v columns"
proof -
  have a: "(let (columns1, c1) = cteViewDO_Select c columns;
        (columns2, c2) = cteViewDO_Select c1 columns
    in columns2 = columns1 \<and> last_Raw (db c2) = last_Raw (db c1))"
    by (simp add: cteViewDO_Select_eq buildCTEQuery_def Let_def)
  have b: "buildSQL (Over w) = buildSQL w"
    by (simp add: buildSQL_eq Over_def)
  have c: "last_Raw (WithQuery_Select b (q\<lparr>wq_db := d\<rparr>) columns)
       = last_Raw (WithQuery_Select b q columns)"
    by (simp add: WithQuery_Select_eq Let_def)
  have d: "windowViewDO_Select (v\<lparr>db := d\<rparr>) columns = windowViewDO_Select v columns"
    by (simp add: windowViewDO_Select_def)
  show ?thesis
    using a b c d by simp
qed

text \<open>
  C10. \<^verbatim>\<open>Select\<close> on a window view (and on a CTE view) returns the selected columns
  followed by one compiled expression per window function, in declaration order; the
  function at index \<open>i\<close> is compiled with the specification at index \<open>i\<close> when there is
  one and with the zero value otherwise, which yields the function text and \<open>OVER ()\<close>;
  specifications beyond the number of functions do not change the result.
\<close>

theorem select_pairs_functions_with_specs:
  "windowViewDO_Select w columns
     = columns @ map (\<lambda>i. buildWindowExpression (windowFuncs w ! i)
                         (if i < length (windowSpecs w) then windowSpecs w ! i else zero_WindowSpec))
                   [0..<length (windowFuncs w)]
   \<and> fst (cteViewDO_Select c columns)
     = columns @ map (\<lambda>i. buildWindowExpression (windowFuncs c ! i)
                         (if i < length (windowSpecs c) then windowSpecs c ! i else zero_WindowSpec))
                   [0..<length (windowFuncs c)]
   \<and> windowViewDO_Select (w\<lparr>windowSpecs := take (length (windowFuncs w)) (windowSpecs w)\<rparr>) columns
     = windowViewDO_Select w columns
   \<and> e (buildWindowExpression wfn zero_WindowSpec)
     = Some (Expr (WindowFuncName wfn @ '' OVER ()'') [RawExpr wfn])"
proof -
  have a: "windowViewDO_Select w columns
     = columns @ map (\<lambda>i. buildWindowExpression (windowFuncs w ! i)
                         (if i < length (windowSpecs w) then windowSpecs w ! i else zero_WindowSpec))
                   [0..<length (windowFuncs w)]" for w
    by (simp add: windowViewDO_Select_def range_windowFuncs_eq spec_at_def)
  have b: "fst (cteViewDO_Select c columns)
     = columns @ map (\<lambda>i. buildWindowExpression (windowFuncs c ! i)
                         (if i < length (windowSpecs c) then windowSpecs c ! i else zero_WindowSpec))
                   [0..<length (windowFuncs c)]"
    by (simp add: cteViewDO_Select_eq spec_at_def)
  have c: "windowViewDO_Select (w\<lparr>windowSpecs := take (length (windowFuncs w)) (windowSpecs w)\<rparr>) columns
     = windowViewDO_Select w columns"
    unfolding a by simp
  have d: "e (buildWindowExpression wfn zero_WindowSpec)
     = Some (Expr (WindowFuncName wfn @ '' OVER ()'') [RawExpr wfn])"
    by (simp add: buildWindowExpression_eq over_text_def zero_WindowSpec_def NewExpr_def
        WindowFuncName_def)
  show ?thesis
    using a [of w] b c d by simp
qed

end
